theory Spec2Isabelle
  imports Complex_Main "HOL-Library.Char_ord" "HOL-Library.List_Lexorder"
begin

text \<open>
  A shallow embedding of the scene-to-game generator of the sprite studio: \<open>clamp\<close>
  (canvas.js), \<open>toScene\<close>, \<open>dataUriBytes\<close> and \<open>validateAssets\<close> (scene.js),
  \<open>calculateColliderBounds\<close> (characterExtraction.js), and \<open>ensureScene\<close>,
  \<open>stableStringify\<close>, \<open>buildGameJs\<close> and \<open>generateBuildManifest\<close> (generator.js). The
  definitions come first, then the properties proved of them.
\<close>

section \<open>JavaScript numbers and the operators the sources use on them\<close>

text \<open>
  A JavaScript number is a finite value, \<open>NaN\<close>, \<open>Infinity\<close> or \<open>-Infinity\<close>. Every finite
  double is a rational, so \<open>Fin\<close> carries a rational: \<open>Math.min\<close>, \<open>Math.max\<close> and the
  comparisons are exact on it. Subtraction is the exact one (rounding is not modelled), and
  the sign of zero is not modelled.
\<close>

datatype jsnum = Fin rat | NaN | PosInf | NegInf

text \<open>The relational operators \<open><\<close> and \<open><=\<close> of the language: false as soon as one side is \<open>NaN\<close>.\<close>

fun js_lt :: "jsnum \<Rightarrow> jsnum \<Rightarrow> bool" where
  "js_lt NaN _ = False"
| "js_lt _ NaN = False"
| "js_lt (Fin a) (Fin b) = (a < b)"
| "js_lt _ NegInf = False"
| "js_lt NegInf _ = True"
| "js_lt PosInf _ = False"
| "js_lt (Fin a) PosInf = True"

fun js_le :: "jsnum \<Rightarrow> jsnum \<Rightarrow> bool" where
  "js_le NaN _ = False"
| "js_le _ NaN = False"
| "js_le a b = (a = b \<or> js_lt a b)"

text \<open>\<open>Math.min\<close> and \<open>Math.max\<close> on two arguments: \<open>NaN\<close> as soon as one argument is \<open>NaN\<close>.\<close>

fun Math_min :: "jsnum \<Rightarrow> jsnum \<Rightarrow> jsnum" where
  "Math_min NaN _ = NaN"
| "Math_min _ NaN = NaN"
| "Math_min a b = (if js_lt b a then b else a)"

fun Math_max :: "jsnum \<Rightarrow> jsnum \<Rightarrow> jsnum" where
  "Math_max NaN _ = NaN"
| "Math_max _ NaN = NaN"
| "Math_max a b = (if js_lt a b then b else a)"

fun Math_abs :: "jsnum \<Rightarrow> jsnum" where
  "Math_abs (Fin a) = Fin \<bar>a\<bar>"
| "Math_abs NaN = NaN"
| "Math_abs PosInf = PosInf"
| "Math_abs NegInf = PosInf"

text \<open>The binary \<open>-\<close> on numbers.\<close>

fun js_sub :: "jsnum \<Rightarrow> jsnum \<Rightarrow> jsnum" where
  "js_sub NaN _ = NaN"
| "js_sub _ NaN = NaN"
| "js_sub (Fin a) (Fin b) = Fin (a - b)"
| "js_sub (Fin a) PosInf = NegInf"
| "js_sub (Fin a) NegInf = PosInf"
| "js_sub PosInf PosInf = NaN"
| "js_sub PosInf _ = PosInf"
| "js_sub NegInf NegInf = NaN"
| "js_sub NegInf _ = NegInf"

text \<open>
  A property that may be absent is an \<open>option\<close>: \<open>None\<close> is \<open>undefined\<close>.
  \<open>ToNumber(undefined)\<close> is \<open>NaN\<close>; a number is falsy when it is \<open>0\<close> or \<open>NaN\<close>, a string
  when it is empty.
\<close>

definition ToNumber :: "jsnum option \<Rightarrow> jsnum" where
  "ToNumber v = (case v of None \<Rightarrow> NaN | Some n \<Rightarrow> n)"

definition truthy_num :: "jsnum \<Rightarrow> bool" where
  "truthy_num n = (n \<noteq> Fin 0 \<and> n \<noteq> NaN)"

text \<open>\<open>v || d\<close> on an optional number, \<open>v || d\<close> on an optional string, and \<open>v ?? d\<close>.\<close>

definition or_num :: "jsnum option \<Rightarrow> jsnum \<Rightarrow> jsnum" where
  "or_num v d = (case v of None \<Rightarrow> d | Some n \<Rightarrow> if truthy_num n then n else d)"

definition or_str :: "string option \<Rightarrow> string \<Rightarrow> string" where
  "or_str v d = (case v of None \<Rightarrow> d | Some s \<Rightarrow> if s \<noteq> [] then s else d)"

definition nullish :: "'a option \<Rightarrow> 'a \<Rightarrow> 'a" where
  "nullish v d = (case v of None \<Rightarrow> d | Some x \<Rightarrow> x)"

text \<open>Decimal digits of a non-negative integer, as a template literal prints it.\<close>

function dec :: "nat \<Rightarrow> string" where
  "dec n = (if n < 10 then [''0123456789'' ! n] else dec (n div 10) @ [''0123456789'' ! (n mod 10)])"
  by pat_completeness auto
termination
  by (relation "measure (\<lambda>n. n)") auto

declare dec.simps [simp del]

section \<open>canvas.js: clamp\<close>

text \<open>\<open>clamp(n, min, max) = Math.max(min, Math.min(max, n))\<close>; an absent \<open>n\<close> is coerced to \<open>NaN\<close>.\<close>

definition clamp :: "jsnum \<Rightarrow> jsnum \<Rightarrow> jsnum \<Rightarrow> jsnum" where
  "clamp n lo hi = Math_max lo (Math_min hi n)"

section \<open>scene.js: the Scene model\<close>

text \<open>
  The Scene contract as records. A property the code reads through \<open>?.\<close>, \<open>??\<close>, \<open>||\<close> or a
  truthiness test is optional. Numeric properties hold numbers (\<open>NaN\<close> and the infinities
  included) and string properties hold strings; the characters \<open>toScene\<close> returns have the
  type of those it takes, so that a Scene can be fed back.
\<close>

record collider =
  col_w :: "jsnum option"
  col_h :: "jsnum option"
  offsetX :: "jsnum option"
  offsetY :: "jsnum option"

record shoot =
  projectileSpeed :: "jsnum option"
  cooldownMs :: "jsnum option"

record abilities =
  jump :: "bool option"
  slide :: "bool option"
  punch :: "bool option"
  moveSpeed :: "jsnum option"
  jumpVelocity :: "jsnum option"
  shoot :: "shoot option"

record spawn =
  spawn_x :: "jsnum option"
  spawn_y :: "jsnum option"

record character =
  char_id :: "string option"
  char_name :: "string option"
  char_imageUrl :: "string option"
  char_collider :: "collider option"
  char_abilities :: "abilities option"
  char_spawn :: "spawn option"

record platform =
  plat_x :: "jsnum option"
  plat_y :: "jsnum option"
  plat_w :: "jsnum option"
  plat_h :: "jsnum option"

record target =
  tgt_x :: "jsnum option"
  tgt_y :: "jsnum option"
  tgt_w :: "jsnum option"
  tgt_h :: "jsnum option"
  tgt_type :: "string option"

record background =
  bg_imageUrl :: "string option"
  bg_fit :: "string option"
  bg_targets :: "target list option"

record world =
  world_width :: "jsnum option"
  world_height :: "jsnum option"
  world_gravity :: "jsnum option"

record controls =
  arrows :: bool
  spaceJump :: bool
  resetKey :: string
  shootKey :: string

text \<open>The argument object of \<open>toScene\<close> and the Scene it returns.\<close>

record scene_args =
  arg_characters :: "character list option"
  arg_platforms :: "platform list option"
  arg_background :: "background option"
  arg_world :: "world option"
  arg_controls :: "controls option"

record scene =
  sc_world :: world
  sc_background :: background
  sc_platforms :: "platform list"
  sc_targets :: "target list"
  sc_characters :: "character list"
  sc_controls :: controls

text \<open>\<open>DEFAULTS.world\<close>, field by field, and \<open>DEFAULTS.controls\<close>.\<close>

definition DEFAULTS_world_width :: jsnum where
  "DEFAULTS_world_width = Fin 1280"

definition DEFAULTS_world_height :: jsnum where
  "DEFAULTS_world_height = Fin 720"

definition DEFAULTS_world_gravity :: jsnum where
  "DEFAULTS_world_gravity = Fin 1400"

definition DEFAULTS_controls :: controls where
  "DEFAULTS_controls = \<lparr>arrows = True, spaceJump = True, resetKey = ''R'', shootKey = ''X''\<rparr>"

text \<open>
  \<open>CONSTRAINTS\<close>: at most 3 characters; the numeric ranges \<open>gravity\<close> 100 to 3000,
  \<open>moveSpeed\<close> 50 to 800, \<open>jumpVelocity\<close> 100 to 1500, \<open>projectileSpeed\<close> 100 to 2000 and
  \<open>cooldownMs\<close> 80 to 2000 are written where \<open>toScene\<close> uses them.
\<close>

definition maxCharacters :: nat where
  "maxCharacters = 3"

text \<open>The optional chains \<open>c.abilities?.f\<close>, \<open>c.spawn?.f\<close> and \<open>background?.f\<close>.\<close>

definition opt_chain :: "'a option \<Rightarrow> ('a \<Rightarrow> 'b option) \<Rightarrow> 'b option" where
  "opt_chain v f = (case v of None \<Rightarrow> None | Some x \<Rightarrow> f x)"

text \<open>The arrow function mapped over the retained characters, \<open>(c, i) => ({...})\<close>.\<close>

definition toScene_char :: "jsnum \<Rightarrow> jsnum \<Rightarrow> character \<Rightarrow> nat \<Rightarrow> character" where
  "toScene_char W H c i =
     \<lparr>char_id = Some (or_str (char_id c) (''char-'' @ dec (i + 1))),
      char_name = Some (or_str (char_name c) ''Hero''),
      char_imageUrl = char_imageUrl c,
      char_collider =
        (case char_collider c of
           Some k \<Rightarrow>
             Some \<lparr>col_w = Some (clamp (ToNumber (col_w k)) (Fin 8) (Fin 256)),
                   col_h = Some (clamp (ToNumber (col_h k)) (Fin 8) (Fin 256)),
                   offsetX = Some (or_num (offsetX k) (Fin 0)),
                   offsetY = Some (or_num (offsetY k) (Fin 0))\<rparr>
         | None \<Rightarrow> None),
      char_abilities =
        Some \<lparr>jump = opt_chain (char_abilities c) jump,
              slide = opt_chain (char_abilities c) slide,
              punch = opt_chain (char_abilities c) punch,
              moveSpeed =
                Some (clamp (nullish (opt_chain (char_abilities c) moveSpeed) (Fin 180))
                        (Fin 50) (Fin 800)),
              jumpVelocity =
                Some (clamp (nullish (opt_chain (char_abilities c) jumpVelocity) (Fin 420))
                        (Fin 100) (Fin 1500)),
              shoot =
                (case opt_chain (char_abilities c) shoot of
                   Some s \<Rightarrow>
                     Some \<lparr>projectileSpeed =
                             Some (clamp (ToNumber (projectileSpeed s)) (Fin 100) (Fin 2000)),
                           cooldownMs =
                             Some (clamp (ToNumber (cooldownMs s)) (Fin 80) (Fin 2000))\<rparr>
                 | None \<Rightarrow> None)\<rparr>,
      char_spawn =
        Some \<lparr>spawn_x = Some (clamp (nullish (opt_chain (char_spawn c) spawn_x) (Fin 100)) (Fin 0) W),
              spawn_y =
                Some (clamp (nullish (opt_chain (char_spawn c) spawn_y) (js_sub H (Fin 200)))
                        (Fin 0) H)\<rparr>\<rparr>"

text \<open>\<open>xs.map((c, i) => f(c, i))\<close>: the callback receives each element with its index.\<close>

definition map_index :: "('a \<Rightarrow> nat \<Rightarrow> 'b) \<Rightarrow> 'a list \<Rightarrow> 'b list" where
  "map_index f xs = map (\<lambda>(i, c). f c i) (enumerate 0 xs)"

definition toScene :: "scene_args \<Rightarrow> scene" where
  "toScene a =
     (let world = nullish (arg_world a)
                    \<lparr>world_width = None, world_height = None, world_gravity = None\<rparr>;
          W = nullish (world_width world) DEFAULTS_world_width;
          H = nullish (world_height world) DEFAULTS_world_height;
          chars = map_index (toScene_char W H)
                    (take maxCharacters (nullish (arg_characters a) []))
      in \<lparr>sc_world =
            \<lparr>world_width = Some W, world_height = Some H,
             world_gravity =
               Some (clamp (nullish (world_gravity world) DEFAULTS_world_gravity)
                       (Fin 100) (Fin 3000))\<rparr>,
          sc_background =
            \<lparr>bg_imageUrl = opt_chain (arg_background a) bg_imageUrl,
             bg_fit = Some (or_str (opt_chain (arg_background a) bg_fit) ''cover''),
             bg_targets = None\<rparr>,
          sc_platforms =
            map (\<lambda>p. \<lparr>plat_x = plat_x p, plat_y = plat_y p, plat_w = plat_w p, plat_h = plat_h p\<rparr>)
              (nullish (arg_platforms a) []),
          sc_targets = nullish (opt_chain (arg_background a) bg_targets) [],
          sc_characters = chars,
          sc_controls = nullish (arg_controls a) DEFAULTS_controls\<rparr>)"

text \<open>Feeding a Scene back: its components as the argument object of the next call.\<close>

definition scene_as_args :: "scene \<Rightarrow> scene_args" where
  "scene_as_args s =
     \<lparr>arg_characters = Some (sc_characters s), arg_platforms = Some (sc_platforms s),
      arg_background = Some (sc_background s), arg_world = Some (sc_world s),
      arg_controls = Some (sc_controls s)\<rparr>"

section \<open>scene.js: asset size validation\<close>


fun split :: "char \<Rightarrow> string \<Rightarrow> string list" where
  "split sep [] = [[]]"
| "split sep (c # cs) =
     (if c = sep then [] # split sep cs
      else (case split sep cs of seg # rest \<Rightarrow> (c # seg) # rest | [] \<Rightarrow> [[c]]))"






text \<open>
  \<open>CONSTRAINTS.bgMaxMB * 1024 * 1024\<close> is 1572864 and \<open>CONSTRAINTS.spriteMaxMB * 1024 * 1024\<close>
  is 1048576; the template literals print the two limits as \<open>1.5\<close> and \<open>1\<close>.
\<close>





section \<open>characterExtraction.js: the collider of a sprite\<close>

text \<open>
  A canvas with the bytes \<open>getImageData(0, 0, width, height)\<close> returns for it: four per pixel,
  row by row, the alpha channel last. \<open>getImageData\<close> throws on an empty rectangle.
\<close>

record canvas =
  cv_width :: nat
  cv_height :: nat
  cv_data :: "nat list"









section \<open>generator.js: values, the design document and \<open>ensureScene\<close>\<close>

text \<open>
  The objects \<open>ensureScene\<close> builds carry values it does not look into (an entity's
  \<open>props\<close>), so they are modelled as JSON-like values. An object is the list of its
  properties in key order; a well-formed one has no key twice.
\<close>

datatype jsval =
    JUndefined
  | JNull
  | JBool bool
  | JNum jsnum
  | JStr string
  | JArr "jsval list"
  | JObj "(string \<times> jsval) list"

text \<open>Truthiness, \<open>a || b\<close>, and the read \<open>obj.k\<close> of a property that may be absent.\<close>

fun truthy :: "jsval \<Rightarrow> bool" where
  "truthy JUndefined = False"
| "truthy JNull = False"
| "truthy (JBool b) = b"
| "truthy (JNum n) = truthy_num n"
| "truthy (JStr s) = (s \<noteq> [])"
| "truthy (JArr _) = True"
| "truthy (JObj _) = True"

definition js_or :: "jsval \<Rightarrow> jsval \<Rightarrow> jsval" where
  "js_or a b = (if truthy a then a else b)"

definition get :: "(string \<times> jsval) list \<Rightarrow> string \<Rightarrow> jsval" where
  "get obj k = (case map_of obj k of None \<Rightarrow> JUndefined | Some v \<Rightarrow> v)"

text \<open>An optional number or string as a value: \<open>undefined\<close> when absent.\<close>

definition num_val :: "jsnum option \<Rightarrow> jsval" where
  "num_val v = (case v of None \<Rightarrow> JUndefined | Some n \<Rightarrow> JNum n)"

text \<open>
  \<open>obj[k] = v\<close> keeps the place of an existing key and appends a new one;
  \<open>Object.assign(target, source)\<close> does so for each property of the source in turn.
  The engine lists integer-like keys before the others; that is not modelled, and the
  order of an object's keys is read only through lookup and through the sorted key list.
\<close>

fun obj_set :: "(string \<times> jsval) list \<Rightarrow> string \<Rightarrow> jsval \<Rightarrow> (string \<times> jsval) list" where
  "obj_set [] k v = [(k, v)]"
| "obj_set ((k', v') # kvs) k v =
     (if k' = k then (k, v) # kvs else (k', v') # obj_set kvs k v)"

definition Object_assign ::
    "(string \<times> jsval) list \<Rightarrow> (string \<times> jsval) list \<Rightarrow> (string \<times> jsval) list" where
  "Object_assign target source = fold (\<lambda>(k, v) t. obj_set t k v) source target"

text \<open>
  The design document: \<open>{ canvas: {width, height}, entities: [...] }\<close>, an entity being
  \<open>{type, shape?, x, y, x2?, y2?, w?, h?, id?, label?, props?}\<close> with numbers, strings and
  an object \<open>props\<close>. \<open>typeof e.w === 'number'\<close> is \<open>e_w e \<noteq> None\<close>.
\<close>

record canvas_size =
  cs_width :: "jsnum option"
  cs_height :: "jsnum option"

record entity =
  e_type :: "string option"
  e_shape :: "string option"
  e_x :: "jsnum option"
  e_y :: "jsnum option"
  e_x2 :: "jsnum option"
  e_y2 :: "jsnum option"
  e_w :: "jsnum option"
  e_h :: "jsnum option"
  e_id :: "string option"
  e_label :: "string option"
  e_props :: "(string \<times> jsval) list option"

record design =
  d_canvas :: "canvas_size option"
  d_entities :: "entity list option"

text \<open>The Scene under construction: the six properties of \<open>defaults\<close>, copied into \<open>scene\<close>.\<close>

record gen_scene =
  gs_world :: jsval
  gs_background :: jsval
  gs_platforms :: "jsval list"
  gs_targets :: "jsval list"
  gs_characters :: "jsval list"
  gs_controls :: jsval

text \<open>The callback of \<open>(design.entities || []).forEach\<close>, one branch per entity type.\<close>

definition map_entity :: "entity \<Rightarrow> gen_scene \<Rightarrow> gen_scene" where
  "map_entity e scene =
     (case e_type e of None \<Rightarrow> scene | Some type \<Rightarrow>
      if type = ''platform'' then
        (if e_shape e = Some ''rect'' \<and> e_w e \<noteq> None \<and> e_h e \<noteq> None then
           scene\<lparr>gs_platforms := gs_platforms scene @
             [JObj [(''x'', num_val (e_x e)), (''y'', num_val (e_y e)),
                    (''w'', num_val (e_w e)), (''h'', num_val (e_h e))]]\<rparr>
         else if e_shape e = Some ''line'' \<and> e_x2 e \<noteq> None \<and> e_y2 e \<noteq> None then
           (let w = or_num (Some (Math_abs (js_sub (ToNumber (e_x2 e)) (ToNumber (e_x e))))) (Fin 24);
                h = Math_max (Fin 4)
                      (or_num (Some (Math_abs (js_sub (ToNumber (e_y2 e)) (ToNumber (e_y e)))))
                         (Fin 4))
            in scene\<lparr>gs_platforms := gs_platforms scene @
                 [JObj [(''x'', JNum (Math_min (ToNumber (e_x e)) (ToNumber (e_x2 e)))),
                        (''y'', JNum (Math_min (ToNumber (e_y e)) (ToNumber (e_y2 e)))),
                        (''w'', JNum w), (''h'', JNum h)]]\<rparr>)
         else scene)
      else if type = ''coin'' \<or> type = ''goal'' \<or> type = ''hazard'' then
        (let w = or_num (e_w e) (Fin 28);
             h = or_num (e_h e) (Fin 28)
         in scene\<lparr>gs_targets := gs_targets scene @
              [JObj [(''x'', num_val (e_x e)), (''y'', num_val (e_y e)),
                     (''w'', JNum w), (''h'', JNum h), (''type'', JStr type)]]\<rparr>)
      else if type = ''playerSpawn'' then
        (let id = or_str (e_id e) ''char-1'';
             spawn = JObj [(''x'', JNum (or_num (e_x e) (Fin 100))),
                           (''y'', JNum (or_num (e_y e) (Fin 100)))];
             abilities = JObj (Object_assign
                                 [(''moveSpeed'', JNum (Fin 180)), (''jumpVelocity'', JNum (Fin 420))]
                                 (nullish (e_props e) []))
         in scene\<lparr>gs_characters := gs_characters scene @
              [JObj [(''id'', JStr id),
                     (''name'', JStr (or_str (e_label e) ''Hero'')),
                     (''imageUrl'',
                        js_or (case e_props e of None \<Rightarrow> JUndefined
                               | Some props \<Rightarrow> get props ''imageUrl'')
                          (JStr '''')),
                     (''collider'',
                        js_or (case e_props e of None \<Rightarrow> JUndefined
                               | Some props \<Rightarrow> get props ''collider'')
                          (JObj [(''w'', JNum (Fin 48)), (''h'', JNum (Fin 64)),
                                 (''offsetX'', JNum (Fin 0)), (''offsetY'', JNum (Fin 0))])),
                     (''abilities'', abilities),
                     (''spawn'', spawn)]]\<rparr>)
      else if type = ''enemy'' then
        (let w = or_num (e_w e) (Fin 32);
             h = or_num (e_h e) (Fin 32)
         in scene\<lparr>gs_targets := gs_targets scene @
              [JObj [(''x'', num_val (e_x e)), (''y'', num_val (e_y e)),
                     (''w'', JNum w), (''h'', JNum h), (''type'', JStr ''enemy''),
                     (''props'', JObj (nullish (e_props e) []))]]\<rparr>)
      else scene)"

text \<open>
  \<open>ensureScene\<close>. \<open>scene.world.width\<close> and \<open>scene.world.height\<close>, read by the two fallbacks,
  are the values \<open>W\<close> and \<open>H\<close> put into \<open>defaults.world\<close>.
\<close>

definition ensureScene :: "design \<Rightarrow> gen_scene" where
  "ensureScene design =
     (let canvas = nullish (d_canvas design)
                     \<lparr>cs_width = Some (Fin 1280), cs_height = Some (Fin 720)\<rparr>;
          W = or_num (cs_width canvas) (Fin 1280);
          H = or_num (cs_height canvas) (Fin 720);
          defaults =
            \<lparr>gs_world = JObj [(''width'', JNum W), (''height'', JNum H),
                               (''gravity'', JNum (Fin 1400))],
             gs_background = JObj [(''imageUrl'', JStr ''''), (''fit'', JStr ''cover'')],
             gs_platforms = [],
             gs_targets = [],
             gs_characters = [],
             gs_controls = JObj [(''arrows'', JBool True), (''spaceJump'', JBool True),
                                 (''resetKey'', JStr ''R''), (''shootKey'', JStr ''X'')]\<rparr>;
          scene = fold map_entity (nullish (d_entities design) []) defaults;
          scene =
            (if length (gs_platforms scene) = 0
             then scene\<lparr>gs_platforms := gs_platforms scene @
                    [JObj [(''x'', JNum (Fin 0)), (''y'', JNum (js_sub H (Fin 60))),
                           (''w'', JNum W), (''h'', JNum (Fin 60))]]\<rparr>
             else scene);
          scene =
            (if length (gs_characters scene) = 0
             then scene\<lparr>gs_characters := gs_characters scene @
                    [JObj [(''id'', JStr ''char-1''),
                           (''name'', JStr ''Hero''),
                           (''imageUrl'', JStr ''''),
                           (''collider'',
                              JObj [(''w'', JNum (Fin 48)), (''h'', JNum (Fin 64)),
                                    (''offsetX'', JNum (Fin 0)), (''offsetY'', JNum (Fin 0))]),
                           (''abilities'',
                              JObj [(''moveSpeed'', JNum (Fin 180)),
                                    (''jumpVelocity'', JNum (Fin 420))]),
                           (''spawn'',
                              JObj [(''x'', JNum (Fin 120)), (''y'', JNum (js_sub H (Fin 120)))])]]\<rparr>
             else scene)
      in scene)"

text \<open>The object \<open>ensureScene\<close> returns, its properties in the order \<open>defaults\<close> lists them.\<close>

definition scene_object :: "gen_scene \<Rightarrow> (string \<times> jsval) list" where
  "scene_object s =
     [(''world'', gs_world s), (''background'', gs_background s),
      (''platforms'', JArr (gs_platforms s)), (''targets'', JArr (gs_targets s)),
      (''characters'', JArr (gs_characters s)), (''controls'', gs_controls s)]"


section \<open>generator.js: the build manifest\<close>

text \<open>
  \<open>JSON.stringify(value, keys, 2)\<close> with an array of keys as its second argument: the keys are
  the property list of the serialisation, used for every object at every depth; a
  property that is absent, or \<open>undefined\<close>, is left out, and \<open>undefined\<close> in an array prints as
  \<open>null\<close>. The printing of a finite number is the engine's and is the parameter \<open>num\<close>.
  Strings are sequences of code units below 256.
\<close>

definition newline :: string where
  "newline = [CHR 0x0A]"

definition gap :: string where
  "gap = ''  ''"

definition hex2 :: "nat \<Rightarrow> string" where
  "hex2 n = [''0123456789abcdef'' ! (n div 16), ''0123456789abcdef'' ! (n mod 16)]"

definition quote_unit :: "char \<Rightarrow> string" where
  "quote_unit c =
     (if c = CHR 0x08 then [CHR 0x5C, CHR ''b'']
      else if c = CHR 0x09 then [CHR 0x5C, CHR ''t'']
      else if c = CHR 0x0A then [CHR 0x5C, CHR ''n'']
      else if c = CHR 0x0C then [CHR 0x5C, CHR ''f'']
      else if c = CHR 0x0D then [CHR 0x5C, CHR ''r'']
      else if c = CHR 0x22 then [CHR 0x5C, CHR 0x22]
      else if c = CHR 0x5C then [CHR 0x5C, CHR 0x5C]
      else if (of_char c :: nat) < 32 then [CHR 0x5C, CHR ''u'', CHR ''0'', CHR ''0''] @ hex2 (of_char c)
      else [c])"

definition QuoteJSONString :: "string \<Rightarrow> string" where
  "QuoteJSONString s = [CHR 0x22] @ concat (map quote_unit s) @ [CHR 0x22]"

fun join :: "string \<Rightarrow> string list \<Rightarrow> string" where
  "join sep [] = []"
| "join sep [x] = x"
| "join sep (x # y # ys) = x @ sep @ join sep (y # ys)"

fun SerializeJSONProperty ::
    "(rat \<Rightarrow> string) \<Rightarrow> string list \<Rightarrow> string \<Rightarrow> jsval \<Rightarrow> string option" where
  "SerializeJSONProperty num K indent JUndefined = None"
| "SerializeJSONProperty num K indent JNull = Some ''null''"
| "SerializeJSONProperty num K indent (JBool b) = Some (if b then ''true'' else ''false'')"
| "SerializeJSONProperty num K indent (JNum n) =
     Some (case n of Fin q \<Rightarrow> num q | _ \<Rightarrow> ''null'')"
| "SerializeJSONProperty num K indent (JStr s) = Some (QuoteJSONString s)"
| "SerializeJSONProperty num K indent (JArr xs) =
     (let stepback = indent;
          indent = indent @ gap;
          partial = map (\<lambda>x. case SerializeJSONProperty num K indent x of
                                 None \<Rightarrow> ''null'' | Some strP \<Rightarrow> strP) xs
      in Some (if partial = [] then ''[]''
               else ''['' @ newline @ indent @ join ('','' @ newline @ indent) partial
                      @ newline @ stepback @ '']''))"
| "SerializeJSONProperty num K indent (JObj kvs) =
     (let stepback = indent;
          indent = indent @ gap;
          strs = map (\<lambda>(k, v). (k, SerializeJSONProperty num K indent v)) kvs;
          partial = concat (map (\<lambda>P. case map_of strs P of
                                         Some (Some strP) \<Rightarrow> [QuoteJSONString P @ '': '' @ strP]
                                       | _ \<Rightarrow> []) K)
      in Some (if partial = [] then ''{}''
               else ''{'' @ newline @ indent @ join ('','' @ newline @ indent) partial
                      @ newline @ stepback @ ''}''))"

text \<open>
  \<open>stableStringify(obj) = JSON.stringify(obj, Object.keys(obj).sort(), 2)\<close>. The default
  \<open>sort\<close> orders strings by code units, a proper prefix first.
\<close>

definition stableStringify :: "(rat \<Rightarrow> string) \<Rightarrow> (string \<times> jsval) list \<Rightarrow> string" where
  "stableStringify num obj =
     (case SerializeJSONProperty num (sort (map fst obj)) [] (JObj obj) of
        Some s \<Rightarrow> s | None \<Rightarrow> [])"

text \<open>
  \<open>buildGameJs\<close>: the template literal with the serialised Scene spliced in. The text of
  the template after the \<open>SCENE\<close> constant is fixed and does not mention the Scene; it is the
  parameter \<open>engine\<close>. The text \<open>buildIndexHtml\<close> returns is fixed too, the parameter \<open>html\<close>.
\<close>

definition buildGameJs :: "(rat \<Rightarrow> string) \<Rightarrow> string \<Rightarrow> gen_scene \<Rightarrow> string" where
  "buildGameJs num engine scene =
     (let sceneJson = stableStringify num (scene_object scene)
      in ''/* ==== GENERATED BY sketch2play static generator ==== */'' @ newline
         @ ''const SCENE = '' @ sceneJson @ '';'' @ newline @ engine)"

record manifest =
  kind :: string
  runtime :: string
  entry :: string
  start :: string
  files :: "(string \<times> string) list"

definition generateBuildManifest ::
    "(rat \<Rightarrow> string) \<Rightarrow> string \<Rightarrow> string \<Rightarrow> design \<Rightarrow> manifest" where
  "generateBuildManifest num html engine design =
     (let scene = ensureScene design;
          files = [(''index.html'', html), (''game.js'', buildGameJs num engine scene)]
      in \<lparr>kind = ''web-service'', runtime = ''static'', entry = ''index.html'',
          start = ''static'', files = files\<rparr>)"

section \<open>The specification's words, and the inputs of the worked examples\<close>

text \<open>
  The glossary's clamp, as a relation between a value \<open>n\<close> and a result \<open>r\<close>: a value below
  the range gives the lower bound, a value above it the upper bound, a value inside it is
  kept, and the result lies inside the range. The comparisons are the language's, so no
  result is related to \<open>NaN\<close> unless the result itself compares inside the range.
\<close>

definition clamped_to :: "jsnum \<Rightarrow> jsnum \<Rightarrow> jsnum \<Rightarrow> jsnum \<Rightarrow> bool" where
  "clamped_to lo hi n r =
     ((js_lt n lo \<longrightarrow> r = lo) \<and> (js_lt hi n \<longrightarrow> r = hi) \<and>
      (js_le lo n \<and> js_le n hi \<longrightarrow> r = n) \<and> js_le lo r \<and> js_le r hi)"

text \<open>One character whose \<open>moveSpeed\<close> is the number \<open>NaN\<close>.\<close>

definition nan_speed_args :: scene_args where
  "nan_speed_args =
     \<lparr>arg_characters = Some
        [\<lparr>char_id = None, char_name = None, char_imageUrl = None, char_collider = None,
          char_abilities = Some \<lparr>jump = None, slide = None, punch = None,
             moveSpeed = Some NaN, jumpVelocity = None, shoot = None\<rparr>,
          char_spawn = None\<rparr>],
      arg_platforms = None, arg_background = None, arg_world = None, arg_controls = None\<rparr>"

text \<open>One character with every numeric field out of range, in a world with too much gravity.\<close>

definition out_of_range_args :: scene_args where
  "out_of_range_args =
     \<lparr>arg_characters = Some
        [\<lparr>char_id = None, char_name = None, char_imageUrl = None,
          char_collider = Some \<lparr>col_w = Some (Fin 4), col_h = Some (Fin 300),
                                 offsetX = None, offsetY = None\<rparr>,
          char_abilities = Some \<lparr>jump = None, slide = None, punch = None,
             moveSpeed = Some (Fin 50000), jumpVelocity = Some (Fin (- 10)), shoot = None\<rparr>,
          char_spawn = None\<rparr>],
      arg_platforms = None, arg_background = None,
      arg_world = Some \<lparr>world_width = Some (Fin 1280), world_height = Some (Fin 720),
                         world_gravity = Some (Fin 5000)\<rparr>,
      arg_controls = None\<rparr>"

text \<open>Five characters that carry an id and an image reference and nothing else.\<close>

definition bare_character :: "string \<Rightarrow> character" where
  "bare_character s =
     \<lparr>char_id = Some s, char_name = None, char_imageUrl = Some (''https://cdn/'' @ s),
      char_collider = None, char_abilities = None, char_spawn = None\<rparr>"

definition five_characters :: scene_args where
  "five_characters =
     \<lparr>arg_characters = Some (map bare_character [''a'', ''b'', ''c'', ''d'', ''e'']),
      arg_platforms = None, arg_background = None, arg_world = None, arg_controls = None\<rparr>"

text \<open>A background that carries one target, the legacy place \<open>toScene\<close> reads targets from.\<close>

definition legacy_targets_args :: scene_args where
  "legacy_targets_args =
     \<lparr>arg_characters = None, arg_platforms = None,
      arg_background = Some \<lparr>bg_imageUrl = None, bg_fit = None,
         bg_targets = Some [\<lparr>tgt_x = Some (Fin 10), tgt_y = Some (Fin 20), tgt_w = Some (Fin 28),
                             tgt_h = Some (Fin 28), tgt_type = Some ''coin''\<rparr>]\<rparr>,
      arg_world = None, arg_controls = None\<rparr>"







text \<open>
  Two values denote the same data when they differ only in the order of the properties of
  their objects: the same keys, each once, with values that denote the same data.
\<close>

inductive js_equiv :: "jsval \<Rightarrow> jsval \<Rightarrow> bool" where
  equiv_Undefined: "js_equiv JUndefined JUndefined"
| equiv_Null: "js_equiv JNull JNull"
| equiv_Bool: "js_equiv (JBool b) (JBool b)"
| equiv_Num: "js_equiv (JNum n) (JNum n)"
| equiv_Str: "js_equiv (JStr s) (JStr s)"
| equiv_Arr: "list_all2 js_equiv xs ys \<Longrightarrow> js_equiv (JArr xs) (JArr ys)"
| equiv_Obj:
    "distinct (map fst kvs) \<Longrightarrow> distinct (map fst kvs') \<Longrightarrow>
     (\<forall>k. rel_option js_equiv (map_of kvs k) (map_of kvs' k)) \<Longrightarrow>
     js_equiv (JObj kvs) (JObj kvs')"

definition entity_equiv :: "entity \<Rightarrow> entity \<Rightarrow> bool" where
  "entity_equiv e e' =
     (e\<lparr>e_props := None\<rparr> = e'\<lparr>e_props := None\<rparr> \<and>
      rel_option (\<lambda>p p'. js_equiv (JObj p) (JObj p')) (e_props e) (e_props e'))"

definition design_equiv :: "design \<Rightarrow> design \<Rightarrow> bool" where
  "design_equiv d d' =
     (d_canvas d = d_canvas d' \<and>
      rel_option (list_all2 entity_equiv) (d_entities d) (d_entities d'))"

text \<open>The same, for two Scenes under construction, list by list.\<close>

definition scene_equiv :: "gen_scene \<Rightarrow> gen_scene \<Rightarrow> bool" where
  "scene_equiv s s' =
     (js_equiv (gs_world s) (gs_world s') \<and>
      js_equiv (gs_background s) (gs_background s') \<and>
      list_all2 js_equiv (gs_platforms s) (gs_platforms s') \<and>
      list_all2 js_equiv (gs_targets s) (gs_targets s') \<and>
      list_all2 js_equiv (gs_characters s) (gs_characters s') \<and>
      js_equiv (gs_controls s) (gs_controls s'))"

text \<open>
  The design of the fallback example, and a design with one \<open>playerSpawn\<close> entity whose
  \<open>props\<close> are the argument.
\<close>

definition empty_design :: design where
  "empty_design =
     \<lparr>d_canvas = Some \<lparr>cs_width = Some (Fin 1280), cs_height = Some (Fin 720)\<rparr>,
      d_entities = Some []\<rparr>"

definition spawn_design :: "(string \<times> jsval) list \<Rightarrow> design" where
  "spawn_design props =
     \<lparr>d_canvas = None,
      d_entities = Some
        [\<lparr>e_type = Some ''playerSpawn'', e_shape = None, e_x = Some (Fin 40), e_y = Some (Fin 50),
          e_x2 = None, e_y2 = None, e_w = None, e_h = None, e_id = None, e_label = None,
          e_props = Some props\<rparr>]\<rparr>"

text \<open>
  The keys of a Scene object in sorted order; an object none of whose keys is one of them;
  the text of an array of \<open>n\<close> empty objects at depth one; and the text of a Scene object in
  which only the numbers of characters, platforms and targets can be read.
\<close>

definition scene_keys :: "string list" where
  "scene_keys = [''background'', ''characters'', ''controls'', ''platforms'', ''targets'', ''world'']"

definition no_scene_key :: "jsval \<Rightarrow> bool" where
  "no_scene_key v = (\<exists>kvs. v = JObj kvs \<and> fst ` set kvs \<inter> set scene_keys = {})"

definition empty_objects :: "nat \<Rightarrow> string" where
  "empty_objects n =
     (if n = 0 then ''[]''
      else ''[\<newline>    '' @ join '',\<newline>    '' (replicate n ''{}'') @ ''\<newline>  ]'')"

definition counts_only :: "nat \<Rightarrow> nat \<Rightarrow> nat \<Rightarrow> string" where
  \<open>counts_only c p t =
     ''{\<newline>  "background": {},\<newline>  "characters": '' @ empty_objects c
     @ '',\<newline>  "controls": {},\<newline>  "platforms": '' @ empty_objects p
     @ '',\<newline>  "targets": '' @ empty_objects t
     @ '',\<newline>  "world": {}\<newline>}''\<close>

definition scene_inv :: "gen_scene \<Rightarrow> bool" where
  "scene_inv s =
     (no_scene_key (gs_world s) \<and> no_scene_key (gs_background s) \<and>
      list_all no_scene_key (gs_platforms s) \<and> list_all no_scene_key (gs_targets s) \<and>
      list_all no_scene_key (gs_characters s) \<and> no_scene_key (gs_controls s))"

section \<open>Properties of \<open>clamp\<close> and \<open>toScene\<close>\<close>

lemma clamp_clamped_to:
  "a \<le> b \<Longrightarrow> n \<noteq> NaN \<Longrightarrow> clamped_to (Fin a) (Fin b) n (clamp n (Fin a) (Fin b))"
  by (cases n) (auto simp: clamp_def clamped_to_def)

lemma clamp_NaN: "clamp NaN lo hi = NaN"
  by (cases lo; cases hi) (simp_all add: clamp_def)

lemma clamp_idem: "clamp (clamp n lo hi) lo hi = clamp n lo hi"
  by (cases n; cases lo; cases hi) (auto simp: clamp_def)

lemma or_str_idem: "or_str (Some (or_str v d)) d = or_str v d"
  by (auto simp: or_str_def split: option.splits)

lemma or_num_idem: "or_num (Some (or_num v d)) d = or_num v d"
  by (auto simp: or_num_def split: option.splits)

lemma map_index_length [simp]: "length (map_index f xs) = length xs"
  by (simp add: map_index_def)

lemma map_index_nth [simp]: "i < length xs \<Longrightarrow> map_index f xs ! i = f (xs ! i) i"
  by (simp add: map_index_def nth_enumerate_eq)

lemma map_index_map_index:
  "map_index f (map_index g xs) = map_index (\<lambda>c i. f (g c i) i) xs"
  by (rule nth_equalityI) simp_all

lemma toScene_characters:
  "\<exists>W H. sc_characters (toScene a)
           = map_index (toScene_char W H) (take 3 (nullish (arg_characters a) []))"
  by (auto simp: toScene_def Let_def maxCharacters_def)

lemma toScene_character_nth:
  assumes "arg_characters a = Some cs" and "i < length cs" and "i < 3"
  shows "\<exists>W H. sc_characters (toScene a) ! i = toScene_char W H (cs ! i) i"
proof -
  obtain W H where "sc_characters (toScene a) = map_index (toScene_char W H) (take 3 cs)"
    using toScene_characters [of a] assms(1) by (auto simp: nullish_def)
  then have "sc_characters (toScene a) ! i = toScene_char W H (cs ! i) i"
    using assms(2,3) by simp
  then show ?thesis by blast
qed

lemma toScene_char_moveSpeed:
  "opt_chain (char_abilities (toScene_char W H c i)) moveSpeed
     = Some (clamp (nullish (opt_chain (char_abilities c) moveSpeed) (Fin 180)) (Fin 50) (Fin 800))"
  by (simp add: toScene_char_def opt_chain_def)

lemma toScene_char_jumpVelocity:
  "opt_chain (char_abilities (toScene_char W H c i)) jumpVelocity
     = Some (clamp (nullish (opt_chain (char_abilities c) jumpVelocity) (Fin 420))
               (Fin 100) (Fin 1500))"
  by (simp add: toScene_char_def opt_chain_def)

lemma toScene_char_col_w:
  "opt_chain (char_collider c) col_w = Some w \<Longrightarrow>
     opt_chain (char_collider (toScene_char W H c i)) col_w = Some (clamp w (Fin 8) (Fin 256))"
  by (auto simp: toScene_char_def opt_chain_def ToNumber_def split: option.splits)

lemma toScene_char_col_h:
  "opt_chain (char_collider c) col_h = Some h \<Longrightarrow>
     opt_chain (char_collider (toScene_char W H c i)) col_h = Some (clamp h (Fin 8) (Fin 256))"
  by (auto simp: toScene_char_def opt_chain_def ToNumber_def split: option.splits)

lemma toScene_gravity:
  "world_gravity (sc_world (toScene a))
     = Some (clamp (nullish (opt_chain (arg_world a) world_gravity) (Fin 1400))
               (Fin 100) (Fin 3000))"
  by (simp add: toScene_def Let_def nullish_def opt_chain_def DEFAULTS_world_gravity_def
        split: option.splits)

text \<open>
  C3, as stated, fails: \<open>NaN\<close> is a number, and \<open>clamp\<close> is
  \<open>Math.max(min, Math.min(max, n))\<close>, which returns \<open>NaN\<close> for it. A character whose
  \<open>moveSpeed\<close> is \<open>NaN\<close> comes out of \<open>toScene\<close> with \<open>moveSpeed\<close> \<open>NaN\<close>, which is neither a
  bound of [50,800] nor inside it.
\<close>

theorem toScene_keeps_NaN:
  "opt_chain (char_abilities (sc_characters (toScene nan_speed_args) ! 0)) moveSpeed = Some NaN \<and>
   \<not> clamped_to (Fin 50) (Fin 800) NaN NaN"
  by (simp add: toScene_def nan_speed_args_def Let_def nullish_def opt_chain_def
        maxCharacters_def map_index_def toScene_char_def clamp_def clamped_to_def)

text \<open>
  C3, amended. Every number other than \<open>NaN\<close> given for \<open>moveSpeed\<close>, \<open>jumpVelocity\<close>, the
  world's \<open>gravity\<close> and a collider's \<open>w\<close> and \<open>h\<close> comes out of \<open>toScene\<close> clamped to its
  range, [50,800], [100,1500], [100,3000] and [8,256]: at the lower bound when it is below
  the range, at the upper bound when it is above (the infinities included), unchanged when
  it is inside, and in every case inside the range. The characters are those \<open>toScene\<close>
  retains (index below 3).
\<close>

theorem toScene_clamps_to_nearest_bound:
  "(\<forall>g. opt_chain (arg_world a) world_gravity = Some g \<and> g \<noteq> NaN \<longrightarrow>
        (\<exists>r. world_gravity (sc_world (toScene a)) = Some r \<and>
              clamped_to (Fin 100) (Fin 3000) g r)) \<and>
   (\<forall>cs i. arg_characters a = Some cs \<and> i < length cs \<and> i < 3 \<longrightarrow>
      (\<forall>m. opt_chain (char_abilities (cs ! i)) moveSpeed = Some m \<and> m \<noteq> NaN \<longrightarrow>
         (\<exists>r. opt_chain (char_abilities (sc_characters (toScene a) ! i)) moveSpeed = Some r \<and>
               clamped_to (Fin 50) (Fin 800) m r)) \<and>
      (\<forall>j. opt_chain (char_abilities (cs ! i)) jumpVelocity = Some j \<and> j \<noteq> NaN \<longrightarrow>
         (\<exists>r. opt_chain (char_abilities (sc_characters (toScene a) ! i)) jumpVelocity = Some r \<and>
               clamped_to (Fin 100) (Fin 1500) j r)) \<and>
      (\<forall>w. opt_chain (char_collider (cs ! i)) col_w = Some w \<and> w \<noteq> NaN \<longrightarrow>
         (\<exists>r. opt_chain (char_collider (sc_characters (toScene a) ! i)) col_w = Some r \<and>
               clamped_to (Fin 8) (Fin 256) w r)) \<and>
      (\<forall>h. opt_chain (char_collider (cs ! i)) col_h = Some h \<and> h \<noteq> NaN \<longrightarrow>
         (\<exists>r. opt_chain (char_collider (sc_characters (toScene a) ! i)) col_h = Some r \<and>
               clamped_to (Fin 8) (Fin 256) h r)))"
proof -
  have grav: "\<exists>r. world_gravity (sc_world (toScene a)) = Some r \<and>
                  clamped_to (Fin 100) (Fin 3000) g r"
    if "opt_chain (arg_world a) world_gravity = Some g \<and> g \<noteq> NaN" for g
    using that by (simp add: toScene_gravity nullish_def clamp_clamped_to)
  have chars: "(\<forall>m. opt_chain (char_abilities (cs ! i)) moveSpeed = Some m \<and> m \<noteq> NaN \<longrightarrow>
         (\<exists>r. opt_chain (char_abilities (sc_characters (toScene a) ! i)) moveSpeed = Some r \<and>
               clamped_to (Fin 50) (Fin 800) m r)) \<and>
      (\<forall>j. opt_chain (char_abilities (cs ! i)) jumpVelocity = Some j \<and> j \<noteq> NaN \<longrightarrow>
         (\<exists>r. opt_chain (char_abilities (sc_characters (toScene a) ! i)) jumpVelocity = Some r \<and>
               clamped_to (Fin 100) (Fin 1500) j r)) \<and>
      (\<forall>w. opt_chain (char_collider (cs ! i)) col_w = Some w \<and> w \<noteq> NaN \<longrightarrow>
         (\<exists>r. opt_chain (char_collider (sc_characters (toScene a) ! i)) col_w = Some r \<and>
               clamped_to (Fin 8) (Fin 256) w r)) \<and>
      (\<forall>h. opt_chain (char_collider (cs ! i)) col_h = Some h \<and> h \<noteq> NaN \<longrightarrow>
         (\<exists>r. opt_chain (char_collider (sc_characters (toScene a) ! i)) col_h = Some r \<and>
               clamped_to (Fin 8) (Fin 256) h r))"
    if retained: "arg_characters a = Some cs" "i < length cs" "i < 3" for cs i
  proof -
    obtain W H where "sc_characters (toScene a) ! i = toScene_char W H (cs ! i) i"
      using toScene_character_nth [OF retained] by blast
    then show ?thesis
      by (simp add: toScene_char_moveSpeed toScene_char_jumpVelocity toScene_char_col_w
            toScene_char_col_h nullish_def clamp_clamped_to)
  qed
  from grav chars show ?thesis by blast
qed

theorem toScene_clamps_to_nearest_bound_witness:
  "world_gravity (sc_world (toScene out_of_range_args)) = Some (Fin 3000) \<and>
   opt_chain (char_abilities (sc_characters (toScene out_of_range_args) ! 0)) moveSpeed
     = Some (Fin 800) \<and>
   opt_chain (char_abilities (sc_characters (toScene out_of_range_args) ! 0)) jumpVelocity
     = Some (Fin 100) \<and>
   opt_chain (char_collider (sc_characters (toScene out_of_range_args) ! 0)) col_w
     = Some (Fin 8) \<and>
   opt_chain (char_collider (sc_characters (toScene out_of_range_args) ! 0)) col_h
     = Some (Fin 256)"
  using toScene_clamps_to_nearest_bound [of out_of_range_args]
  by (auto simp: out_of_range_args_def opt_chain_def clamped_to_def)

text \<open>
  C4. Given more than 3 characters, \<open>toScene\<close> returns exactly 3: the \<open>i\<close>-th one is built from
  the \<open>i\<close>-th input character, for \<open>i\<close> = 0, 1, 2, so the image references come out as those of
  the first three inputs in their order, and so does every non-empty id.
\<close>

theorem toScene_truncates_to_first_three:
  assumes "arg_characters a = Some cs" and "3 < length cs"
  shows "length (sc_characters (toScene a)) = 3 \<and>
         map char_imageUrl (sc_characters (toScene a)) = map char_imageUrl (take 3 cs) \<and>
         (\<forall>i<3. \<forall>s. char_id (cs ! i) = Some s \<and> s \<noteq> [] \<longrightarrow>
                   char_id (sc_characters (toScene a) ! i) = Some s) \<and>
         (\<exists>W H. \<forall>i<3. sc_characters (toScene a) ! i = toScene_char W H (cs ! i) i)"
proof -
  obtain W H where out: "sc_characters (toScene a) = map_index (toScene_char W H) (take 3 cs)"
    using toScene_characters [of a] assms(1) by (auto simp: nullish_def)
  have len: "length (sc_characters (toScene a)) = 3"
    using assms(2) by (simp add: out)
  have nth: "sc_characters (toScene a) ! i = toScene_char W H (cs ! i) i" if "i < 3" for i
    using that assms(2) by (simp add: out)
  have img: "map char_imageUrl (sc_characters (toScene a)) = map char_imageUrl (take 3 cs)"
  proof (rule nth_equalityI)
    show "length (map char_imageUrl (sc_characters (toScene a)))
            = length (map char_imageUrl (take 3 cs))"
      using assms(2) by (simp add: len)
  next
    fix i assume "i < length (map char_imageUrl (sc_characters (toScene a)))"
    then have "i < 3" by (simp add: len)
    then show "map char_imageUrl (sc_characters (toScene a)) ! i
                 = map char_imageUrl (take 3 cs) ! i"
      using assms(2) by (simp add: len nth toScene_char_def)
  qed
  have ids: "\<forall>i<3. \<forall>s. char_id (cs ! i) = Some s \<and> s \<noteq> [] \<longrightarrow>
                   char_id (sc_characters (toScene a) ! i) = Some s"
    by (simp add: nth toScene_char_def or_str_def)
  from len img ids nth show ?thesis by blast
qed

theorem toScene_truncates_to_first_three_witness:
  "length (sc_characters (toScene five_characters)) = 3 \<and>
   map char_imageUrl (sc_characters (toScene five_characters))
     = [Some ''https://cdn/a'', Some ''https://cdn/b'', Some ''https://cdn/c''] \<and>
   char_id (sc_characters (toScene five_characters) ! 0) = Some ''a'' \<and>
   char_id (sc_characters (toScene five_characters) ! 1) = Some ''b'' \<and>
   char_id (sc_characters (toScene five_characters) ! 2) = Some ''c''"
proof -
  let ?cs = "map bare_character [''a'', ''b'', ''c'', ''d'', ''e'']"
  have h1: "arg_characters five_characters = Some ?cs" by (simp add: five_characters_def)
  have h2: "3 < length ?cs" by simp
  show ?thesis
    using toScene_truncates_to_first_three [OF h1 h2]
    by (simp add: bare_character_def numeral_3_eq_3 numeral_2_eq_2 All_less_Suc)
qed

text \<open>
  C8, as stated, fails: a background that carries \<open>targets\<close> gives a Scene with those targets,
  and that Scene's own background has no \<open>targets\<close> field, so the second application returns
  an empty target list.
\<close>

theorem toScene_second_pass_drops_targets:
  "toScene (scene_as_args (toScene legacy_targets_args)) \<noteq> toScene legacy_targets_args"
  by (simp add: toScene_def scene_as_args_def legacy_targets_args_def Let_def nullish_def
        opt_chain_def)

text \<open>
  C8, amended. Feeding the components of \<open>toScene x\<close> back into \<open>toScene\<close> returns the same
  world, background, platforms, characters and controls, with an empty target list; the Scene
  is returned unchanged exactly when its target list is empty.
\<close>

theorem toScene_idempotent_up_to_targets:
  "toScene (scene_as_args (toScene x)) = (toScene x)\<lparr>sc_targets := []\<rparr> \<and>
   (toScene (scene_as_args (toScene x)) = toScene x) = (sc_targets (toScene x) = [])"
proof -
  have char_idem: "toScene_char W H (toScene_char W H c i) i = toScene_char W H c i" for W H c i
    by (simp add: toScene_char_def clamp_idem or_str_idem or_num_idem opt_chain_def nullish_def
          ToNumber_def split: option.splits)
  have eq: "toScene (scene_as_args (toScene x)) = (toScene x)\<lparr>sc_targets := []\<rparr>"
    by (simp add: toScene_def scene_as_args_def Let_def nullish_def opt_chain_def clamp_idem
          or_str_idem map_index_map_index char_idem maxCharacters_def o_def)
  have "((toScene x)\<lparr>sc_targets := []\<rparr> = toScene x) = (sc_targets (toScene x) = [])"
    by (cases "toScene x") auto
  with eq show ?thesis by simp
qed

text \<open>
  C10. A retained character without \<open>abilities.moveSpeed\<close> gets exactly 180, one without
  \<open>abilities.jumpVelocity\<close> exactly 420; 180 lies strictly between 50 and 800, and 420
  strictly between 100 and 1500.
\<close>

theorem toScene_default_abilities:
  assumes "arg_characters a = Some cs" and "i < length cs" and "i < 3"
  shows "(opt_chain (char_abilities (cs ! i)) moveSpeed = None \<longrightarrow>
            opt_chain (char_abilities (sc_characters (toScene a) ! i)) moveSpeed
              = Some (Fin 180)) \<and>
         (opt_chain (char_abilities (cs ! i)) jumpVelocity = None \<longrightarrow>
            opt_chain (char_abilities (sc_characters (toScene a) ! i)) jumpVelocity
              = Some (Fin 420)) \<and>
         js_lt (Fin 50) (Fin 180) \<and> js_lt (Fin 180) (Fin 800) \<and>
         js_lt (Fin 100) (Fin 420) \<and> js_lt (Fin 420) (Fin 1500)"
proof -
  obtain W H where "sc_characters (toScene a) ! i = toScene_char W H (cs ! i) i"
    using toScene_character_nth [OF assms] by blast
  then show ?thesis
    by (simp add: toScene_char_def opt_chain_def nullish_def clamp_def)
qed

theorem toScene_default_abilities_witness:
  "opt_chain (char_abilities (sc_characters (toScene five_characters) ! 1)) moveSpeed
     = Some (Fin 180) \<and>
   opt_chain (char_abilities (sc_characters (toScene five_characters) ! 1)) jumpVelocity
     = Some (Fin 420)"
  using toScene_default_abilities
    [of five_characters "map bare_character [''a'', ''b'', ''c'', ''d'', ''e'']" 1]
  by (simp add: five_characters_def bare_character_def opt_chain_def)

section \<open>Properties of \<open>validateAssets\<close>\<close>


















section \<open>Properties of \<open>calculateColliderBounds\<close>\<close>












section \<open>Properties of \<open>ensureScene\<close> and \<open>generateBuildManifest\<close>\<close>

lemma map_cong_list_all2:
  "list_all2 (\<lambda>x y. f x = f y) xs ys \<Longrightarrow> map f xs = map f ys"
  by (induction rule: list_all2_induct) simp_all

lemma map_of_map_value:
  "map_of (map (\<lambda>(k, v). (k, f v)) kvs) k = map_option f (map_of kvs k)"
  by (induction kvs) auto

lemma SerializeJSONProperty_equiv:
  "js_equiv a b \<Longrightarrow> SerializeJSONProperty num K indent a = SerializeJSONProperty num K indent b"
proof (induction arbitrary: indent rule: js_equiv.induct)
  case (equiv_Arr xs ys)
  have "list_all2 (\<lambda>x y. SerializeJSONProperty num K (indent @ gap) x
                          = SerializeJSONProperty num K (indent @ gap) y) xs ys"
    using equiv_Arr by (rule list_all2_mono) simp
  then have "map (\<lambda>x. case SerializeJSONProperty num K (indent @ gap) x of
                        None \<Rightarrow> ''null'' | Some strP \<Rightarrow> strP) xs
           = map (\<lambda>x. case SerializeJSONProperty num K (indent @ gap) x of
                        None \<Rightarrow> ''null'' | Some strP \<Rightarrow> strP) ys"
    by (intro map_cong_list_all2) (rule list_all2_mono, assumption, simp)
  then show ?case by (simp only: SerializeJSONProperty.simps Let_def)
next
  case (equiv_Obj kvs kvs')
  have "map_option (SerializeJSONProperty num K (indent @ gap)) (map_of kvs P)
      = map_option (SerializeJSONProperty num K (indent @ gap)) (map_of kvs' P)" for P
    using equiv_Obj(3) [rule_format, of P] by (cases rule: option.rel_cases) simp_all
  then show ?case by (simp only: SerializeJSONProperty.simps Let_def map_of_map_value)
qed simp_all

lemma js_equiv_keys:
  assumes "js_equiv (JObj a) (JObj b)"
  shows "sort (map fst a) = sort (map fst b)"
proof -
  from assms have d: "distinct (map fst a)" "distinct (map fst b)"
    and r: "\<And>k. rel_option js_equiv (map_of a k) (map_of b k)"
    by (auto elim: js_equiv.cases)
  have "dom (map_of a) = dom (map_of b)"
  proof -
    have "(map_of a k = None) = (map_of b k = None)" for k
      using r [of k] by (cases rule: option.rel_cases) simp_all
    then show ?thesis by (auto simp: dom_def)
  qed
  then have "set (map fst a) = set (map fst b)"
    by (simp add: dom_map_of_conv_image_fst)
  then show ?thesis
    using d by (intro sorted_distinct_set_unique) simp_all
qed

lemma stableStringify_equiv:
  "js_equiv (JObj a) (JObj b) \<Longrightarrow> stableStringify num a = stableStringify num b"
  unfolding stableStringify_def
  by (simp only: js_equiv_keys SerializeJSONProperty_equiv [of "JObj a" "JObj b"])


lemma js_equiv_scalar [simp]:
  "js_equiv JUndefined JUndefined" "js_equiv JNull JNull" "js_equiv (JBool b) (JBool b)"
  "js_equiv (JNum n) (JNum n)" "js_equiv (JStr s) (JStr s)" "js_equiv (num_val v) (num_val v)"
  by (auto simp: num_val_def intro: js_equiv.intros split: option.splits)

lemma rel_option_map_of_same_keys:
  assumes "map fst kvs = map fst kvs'"
    and "list_all2 R (map snd kvs) (map snd kvs')"
  shows "rel_option R (map_of kvs k) (map_of kvs' k)"
proof -
  have "length kvs = length kvs'"
    using assms(1) by (metis length_map)
  then show ?thesis
    using assms by (induction kvs kvs' rule: list_induct2) auto
qed

lemma js_equiv_ObjI:
  assumes "map fst kvs = map fst kvs'" and "distinct (map fst kvs)"
    and "list_all2 js_equiv (map snd kvs) (map snd kvs')"
  shows "js_equiv (JObj kvs) (JObj kvs')"
  using assms by (intro equiv_Obj) (simp_all add: rel_option_map_of_same_keys)

lemma js_equiv_ObjD:
  assumes "js_equiv (JObj p) (JObj p')"
  shows "distinct (map fst p)" and "distinct (map fst p')"
    and "rel_option js_equiv (map_of p k) (map_of p' k)"
  using assms by (auto elim: js_equiv.cases)

lemma get_equiv:
  "js_equiv (JObj p) (JObj p') \<Longrightarrow> js_equiv (get p k) (get p' k)"
  using js_equiv_ObjD(3) [of p p' k]
  by (auto simp: get_def elim: option.rel_cases)

lemma truthy_equiv: "js_equiv a b \<Longrightarrow> truthy a = truthy b"
  by (erule js_equiv.cases) simp_all

lemma js_or_equiv:
  "js_equiv a b \<Longrightarrow> js_equiv c d \<Longrightarrow> js_equiv (js_or a c) (js_or b d)"
  by (simp add: js_or_def truthy_equiv)

lemma map_of_obj_set: "map_of (obj_set t k v) = (map_of t)(k \<mapsto> v)"
  by (induction t) (auto simp: fun_eq_iff)

lemma keys_obj_set: "fst ` set (obj_set t k v) = insert k (fst ` set t)"
proof (induction t)
  case Nil
  then show ?case by simp
next
  case (Cons kv t)
  then show ?case by (cases kv) (simp add: insert_commute)
qed

lemma distinct_obj_set: "distinct (map fst t) \<Longrightarrow> distinct (map fst (obj_set t k v))"
  by (induction t) (auto simp: keys_obj_set)

lemma distinct_Object_assign:
  "distinct (map fst t) \<Longrightarrow> distinct (map fst (Object_assign t s))"
  unfolding Object_assign_def
  by (induction s arbitrary: t) (auto simp: distinct_obj_set)

lemma map_of_Object_assign:
  "distinct (map fst s) \<Longrightarrow>
     map_of (Object_assign t s) k = (case map_of s k of Some v \<Rightarrow> Some v | None \<Rightarrow> map_of t k)"
  unfolding Object_assign_def
proof (induction s arbitrary: t)
  case Nil
  then show ?case by simp
next
  case (Cons kv s)
  obtain k' v' where kv: "kv = (k', v')" by (cases kv)
  from Cons.prems have "map_of s k' = None" and "distinct (map fst s)"
    by (auto simp: kv map_of_eq_None_iff)
  then show ?case
    by (auto simp: kv Cons.IH map_of_obj_set split: option.splits)
qed

lemma Object_assign_equiv:
  assumes "js_equiv (JObj t) (JObj t)" and "js_equiv (JObj p) (JObj p')"
  shows "js_equiv (JObj (Object_assign t p)) (JObj (Object_assign t p'))"
proof (rule equiv_Obj)
  note t = js_equiv_ObjD [OF assms(1)] and p = js_equiv_ObjD [OF assms(2)]
  show "distinct (map fst (Object_assign t p))" "distinct (map fst (Object_assign t p'))"
    using t(1) by (simp_all add: distinct_Object_assign)
  show "\<forall>k. rel_option js_equiv (map_of (Object_assign t p) k) (map_of (Object_assign t p') k)"
  proof
    fix k
    show "rel_option js_equiv (map_of (Object_assign t p) k) (map_of (Object_assign t p') k)"
      using p(3) [of k] t(3) [of k]
      by (auto simp: map_of_Object_assign p(1) p(2) elim!: option.rel_cases)
  qed
qed

lemma push_equiv:
  "list_all2 js_equiv xs ys \<Longrightarrow> js_equiv x y \<Longrightarrow> list_all2 js_equiv (xs @ [x]) (ys @ [y])"
  by (simp add: list_all2_appendI)

lemma entity_equiv_fields:
  assumes "entity_equiv e e'"
  shows "e_type e = e_type e'" "e_shape e = e_shape e'" "e_x e = e_x e'" "e_y e = e_y e'"
    "e_x2 e = e_x2 e'" "e_y2 e = e_y2 e'" "e_w e = e_w e'" "e_h e = e_h e'"
    "e_id e = e_id e'" "e_label e = e_label e'"
  using assms by (cases e; cases e'; simp add: entity_equiv_def)+

lemma entity_equiv_props:
  assumes "entity_equiv e e'"
  shows "js_equiv (JObj (nullish (e_props e) [])) (JObj (nullish (e_props e') []))"
    and "js_equiv (case e_props e of None \<Rightarrow> JUndefined | Some props \<Rightarrow> get props k)
                  (case e_props e' of None \<Rightarrow> JUndefined | Some props \<Rightarrow> get props k)"
proof -
  have r: "rel_option (\<lambda>p p'. js_equiv (JObj p) (JObj p')) (e_props e) (e_props e')"
    using assms by (simp add: entity_equiv_def)
  have empty: "js_equiv (JObj []) (JObj [])"
    by (rule equiv_Obj) simp_all
  show "js_equiv (JObj (nullish (e_props e) [])) (JObj (nullish (e_props e') []))"
    using r empty by (cases rule: option.rel_cases) (simp_all add: nullish_def)
  show "js_equiv (case e_props e of None \<Rightarrow> JUndefined | Some props \<Rightarrow> get props k)
                 (case e_props e' of None \<Rightarrow> JUndefined | Some props \<Rightarrow> get props k)"
    using r by (cases rule: option.rel_cases) (simp_all add: get_equiv)
qed

lemma map_entity_rect:
  assumes "e_type e = Some ''platform''" and "e_shape e = Some ''rect''"
    and "e_w e \<noteq> None" and "e_h e \<noteq> None"
  shows "map_entity e s = s\<lparr>gs_platforms := gs_platforms s @
           [JObj [(''x'', num_val (e_x e)), (''y'', num_val (e_y e)),
                  (''w'', num_val (e_w e)), (''h'', num_val (e_h e))]]\<rparr>"
  using assms by (simp add: map_entity_def)

lemma map_entity_line:
  assumes "e_type e = Some ''platform''" and "e_shape e = Some ''line''"
    and "e_x2 e \<noteq> None" and "e_y2 e \<noteq> None"
  shows "map_entity e s = s\<lparr>gs_platforms := gs_platforms s @
           [JObj [(''x'', JNum (Math_min (ToNumber (e_x e)) (ToNumber (e_x2 e)))),
                  (''y'', JNum (Math_min (ToNumber (e_y e)) (ToNumber (e_y2 e)))),
                  (''w'', JNum (or_num (Some (Math_abs (js_sub (ToNumber (e_x2 e)) (ToNumber (e_x e)))))
                                  (Fin 24))),
                  (''h'', JNum (Math_max (Fin 4)
                                  (or_num (Some (Math_abs (js_sub (ToNumber (e_y2 e)) (ToNumber (e_y e)))))
                                     (Fin 4))))]]\<rparr>"
  using assms by (simp add: map_entity_def Let_def)

lemma map_entity_no_platform:
  assumes "e_type e = Some ''platform''"
    and "\<not> (e_shape e = Some ''rect'' \<and> e_w e \<noteq> None \<and> e_h e \<noteq> None)"
    and "\<not> (e_shape e = Some ''line'' \<and> e_x2 e \<noteq> None \<and> e_y2 e \<noteq> None)"
  shows "map_entity e s = s"
  using assms by (simp add: map_entity_def)

lemma map_entity_target:
  assumes "e_type e = Some t" and "t = ''coin'' \<or> t = ''goal'' \<or> t = ''hazard''"
  shows "map_entity e s = s\<lparr>gs_targets := gs_targets s @
           [JObj [(''x'', num_val (e_x e)), (''y'', num_val (e_y e)),
                  (''w'', JNum (or_num (e_w e) (Fin 28))), (''h'', JNum (or_num (e_h e) (Fin 28))),
                  (''type'', JStr t)]]\<rparr>"
  using assms by (auto simp: map_entity_def Let_def)

lemma map_entity_playerSpawn:
  assumes "e_type e = Some ''playerSpawn''"
  shows "map_entity e s = s\<lparr>gs_characters := gs_characters s @
           [JObj [(''id'', JStr (or_str (e_id e) ''char-1'')),
                  (''name'', JStr (or_str (e_label e) ''Hero'')),
                  (''imageUrl'',
                     js_or (case e_props e of None \<Rightarrow> JUndefined
                            | Some props \<Rightarrow> get props ''imageUrl'')
                       (JStr [])),
                  (''collider'',
                     js_or (case e_props e of None \<Rightarrow> JUndefined
                            | Some props \<Rightarrow> get props ''collider'')
                       (JObj [(''w'', JNum (Fin 48)), (''h'', JNum (Fin 64)),
                              (''offsetX'', JNum (Fin 0)), (''offsetY'', JNum (Fin 0))])),
                  (''abilities'',
                     JObj (Object_assign
                             [(''moveSpeed'', JNum (Fin 180)), (''jumpVelocity'', JNum (Fin 420))]
                             (nullish (e_props e) []))),
                  (''spawn'', JObj [(''x'', JNum (or_num (e_x e) (Fin 100))),
                                    (''y'', JNum (or_num (e_y e) (Fin 100)))])]]\<rparr>"
  using assms by (simp add: map_entity_def Let_def)

lemma map_entity_enemy:
  assumes "e_type e = Some ''enemy''"
  shows "map_entity e s = s\<lparr>gs_targets := gs_targets s @
           [JObj [(''x'', num_val (e_x e)), (''y'', num_val (e_y e)),
                  (''w'', JNum (or_num (e_w e) (Fin 32))), (''h'', JNum (or_num (e_h e) (Fin 32))),
                  (''type'', JStr ''enemy''),
                  (''props'', JObj (nullish (e_props e) []))]]\<rparr>"
  using assms by (simp add: map_entity_def Let_def)

lemma map_entity_ignored:
  assumes "e_type e \<notin> {Some ''platform'', Some ''coin'', Some ''goal'', Some ''hazard'',
                         Some ''playerSpawn'', Some ''enemy''}"
  shows "map_entity e s = s"
  using assms by (auto simp: map_entity_def split: option.splits)

lemma map_entity_equiv:
  assumes "entity_equiv e e'" and "scene_equiv s s'"
  shows "scene_equiv (map_entity e s) (map_entity e' s')"
proof -
  note f = entity_equiv_fields [OF assms(1), symmetric]
  note p = entity_equiv_props [OF assms(1)]
  have dflt: "js_equiv (JObj [(''moveSpeed'', JNum (Fin 180)), (''jumpVelocity'', JNum (Fin 420))])
                       (JObj [(''moveSpeed'', JNum (Fin 180)), (''jumpVelocity'', JNum (Fin 420))])"
    by (rule js_equiv_ObjI) simp_all
  have abilities:
    "js_equiv (JObj (Object_assign [(''moveSpeed'', JNum (Fin 180)), (''jumpVelocity'', JNum (Fin 420))]
                       (nullish (e_props e) [])))
              (JObj (Object_assign [(''moveSpeed'', JNum (Fin 180)), (''jumpVelocity'', JNum (Fin 420))]
                       (nullish (e_props e') [])))"
    by (rule Object_assign_equiv [OF dflt p(1)])
  have collider:
    "js_equiv (js_or (case e_props e of None \<Rightarrow> JUndefined | Some props \<Rightarrow> get props ''collider'')
                 (JObj [(''w'', JNum (Fin 48)), (''h'', JNum (Fin 64)),
                        (''offsetX'', JNum (Fin 0)), (''offsetY'', JNum (Fin 0))]))
              (js_or (case e_props e' of None \<Rightarrow> JUndefined | Some props \<Rightarrow> get props ''collider'')
                 (JObj [(''w'', JNum (Fin 48)), (''h'', JNum (Fin 64)),
                        (''offsetX'', JNum (Fin 0)), (''offsetY'', JNum (Fin 0))]))"
    by (intro js_or_equiv p(2) js_equiv_ObjI) simp_all
  have image:
    "js_equiv (js_or (case e_props e of None \<Rightarrow> JUndefined | Some props \<Rightarrow> get props ''imageUrl'')
                 (JStr []))
              (js_or (case e_props e' of None \<Rightarrow> JUndefined | Some props \<Rightarrow> get props ''imageUrl'')
                 (JStr []))"
    by (intro js_or_equiv p(2)) simp
  have obj_plain: "js_equiv (JObj [(''x'', JNum a), (''y'', JNum b), (''w'', JNum c), (''h'', JNum d)])
                        (JObj [(''x'', JNum a), (''y'', JNum b), (''w'', JNum c), (''h'', JNum d)])"
    for a b c d
    by (rule js_equiv_ObjI) simp_all
  have obj_rect: "js_equiv (JObj [(''x'', num_val a), (''y'', num_val b), (''w'', num_val c), (''h'', num_val d)])
                       (JObj [(''x'', num_val a), (''y'', num_val b), (''w'', num_val c), (''h'', num_val d)])"
    for a b c d
    by (rule js_equiv_ObjI) simp_all
  have obj_target: "js_equiv (JObj [(''x'', num_val a), (''y'', num_val b), (''w'', JNum c), (''h'', JNum d),
                             (''type'', JStr t)])
                      (JObj [(''x'', num_val a), (''y'', num_val b), (''w'', JNum c), (''h'', JNum d),
                             (''type'', JStr t)])"
    for a b c d t
    by (rule js_equiv_ObjI) simp_all
  have enemy_obj:
    "js_equiv (JObj [(''x'', num_val a), (''y'', num_val b), (''w'', JNum c), (''h'', JNum d),
                     (''type'', JStr ''enemy''), (''props'', JObj (nullish (e_props e) []))])
              (JObj [(''x'', num_val a), (''y'', num_val b), (''w'', JNum c), (''h'', JNum d),
                     (''type'', JStr ''enemy''), (''props'', JObj (nullish (e_props e') []))])"
    for a b c d
    using p(1) by (intro js_equiv_ObjI) simp_all
  have spawn_obj: "js_equiv (JObj [(''x'', JNum a), (''y'', JNum b)]) (JObj [(''x'', JNum a), (''y'', JNum b)])"
    for a b
    by (rule js_equiv_ObjI) simp_all
  have char_obj:
    "js_equiv
       (JObj [(''id'', JStr i), (''name'', JStr n),
              (''imageUrl'',
                 js_or (case e_props e of None \<Rightarrow> JUndefined | Some props \<Rightarrow> get props ''imageUrl'')
                   (JStr [])),
              (''collider'',
                 js_or (case e_props e of None \<Rightarrow> JUndefined | Some props \<Rightarrow> get props ''collider'')
                   (JObj [(''w'', JNum (Fin 48)), (''h'', JNum (Fin 64)),
                          (''offsetX'', JNum (Fin 0)), (''offsetY'', JNum (Fin 0))])),
              (''abilities'',
                 JObj (Object_assign
                         [(''moveSpeed'', JNum (Fin 180)), (''jumpVelocity'', JNum (Fin 420))]
                         (nullish (e_props e) []))),
              (''spawn'', JObj [(''x'', JNum a), (''y'', JNum b)])])
       (JObj [(''id'', JStr i), (''name'', JStr n),
              (''imageUrl'',
                 js_or (case e_props e' of None \<Rightarrow> JUndefined | Some props \<Rightarrow> get props ''imageUrl'')
                   (JStr [])),
              (''collider'',
                 js_or (case e_props e' of None \<Rightarrow> JUndefined | Some props \<Rightarrow> get props ''collider'')
                   (JObj [(''w'', JNum (Fin 48)), (''h'', JNum (Fin 64)),
                          (''offsetX'', JNum (Fin 0)), (''offsetY'', JNum (Fin 0))])),
              (''abilities'',
                 JObj (Object_assign
                         [(''moveSpeed'', JNum (Fin 180)), (''jumpVelocity'', JNum (Fin 420))]
                         (nullish (e_props e') []))),
              (''spawn'', JObj [(''x'', JNum a), (''y'', JNum b)])])"
    for i n a b
    using abilities collider image spawn_obj [of a b] by (intro js_equiv_ObjI) simp_all
  have push_platform: "scene_equiv (s\<lparr>gs_platforms := gs_platforms s @ [x]\<rparr>)
                                   (s'\<lparr>gs_platforms := gs_platforms s' @ [y]\<rparr>)"
    if "js_equiv x y" for x y
    using assms(2) that by (simp add: scene_equiv_def push_equiv)
  have push_target: "scene_equiv (s\<lparr>gs_targets := gs_targets s @ [x]\<rparr>)
                                 (s'\<lparr>gs_targets := gs_targets s' @ [y]\<rparr>)"
    if "js_equiv x y" for x y
    using assms(2) that by (simp add: scene_equiv_def push_equiv)
  have push_character: "scene_equiv (s\<lparr>gs_characters := gs_characters s @ [x]\<rparr>)
                                    (s'\<lparr>gs_characters := gs_characters s' @ [y]\<rparr>)"
    if "js_equiv x y" for x y
    using assms(2) that by (simp add: scene_equiv_def push_equiv)
  consider (rect) "e_type e = Some ''platform''" "e_shape e = Some ''rect''" "e_w e \<noteq> None" "e_h e \<noteq> None"
    | (line) "e_type e = Some ''platform''" "e_shape e = Some ''line''" "e_x2 e \<noteq> None" "e_y2 e \<noteq> None"
    | (no_platform) "e_type e = Some ''platform''"
        "\<not> (e_shape e = Some ''rect'' \<and> e_w e \<noteq> None \<and> e_h e \<noteq> None)"
        "\<not> (e_shape e = Some ''line'' \<and> e_x2 e \<noteq> None \<and> e_y2 e \<noteq> None)"
    | (target) t where "e_type e = Some t" "t = ''coin'' \<or> t = ''goal'' \<or> t = ''hazard''"
    | (spawn) "e_type e = Some ''playerSpawn''"
    | (enemy) "e_type e = Some ''enemy''"
    | (ignored) "e_type e \<notin> {Some ''platform'', Some ''coin'', Some ''goal'', Some ''hazard'',
                               Some ''playerSpawn'', Some ''enemy''}"
    by blast
  then show ?thesis
  proof cases
    case rect
    show ?thesis
      unfolding map_entity_rect [OF rect] map_entity_rect [of e', unfolded f, OF rect]
      by (rule push_platform [OF obj_rect])
  next
    case line
    show ?thesis
      unfolding map_entity_line [OF line] map_entity_line [of e', unfolded f, OF line]
      by (rule push_platform [OF obj_plain])
  next
    case no_platform
    show ?thesis
      unfolding map_entity_no_platform [OF no_platform]
        map_entity_no_platform [of e', unfolded f, OF no_platform]
      by (rule assms(2))
  next
    case target
    show ?thesis
      unfolding map_entity_target [OF target] map_entity_target [of e', unfolded f, OF target]
      by (rule push_target [OF obj_target])
  next
    case spawn
    show ?thesis
      unfolding map_entity_playerSpawn [OF spawn] map_entity_playerSpawn [of e', unfolded f, OF spawn]
      by (rule push_character [OF char_obj])
  next
    case enemy
    show ?thesis
      unfolding map_entity_enemy [OF enemy] map_entity_enemy [of e', unfolded f, OF enemy]
      by (rule push_target [OF enemy_obj])
  next
    case ignored
    show ?thesis
      unfolding map_entity_ignored [OF ignored] map_entity_ignored [of e', unfolded f, OF ignored]
      by (rule assms(2))
  qed
qed

lemma js_equiv_Obj_refl:
  assumes "distinct (map fst kvs)" and "\<And>v. v \<in> snd ` set kvs \<Longrightarrow> js_equiv v v"
  shows "js_equiv (JObj kvs) (JObj kvs)"
proof (rule js_equiv_ObjI)
  show "list_all2 js_equiv (map snd kvs) (map snd kvs)"
    using assms(2) by (simp add: list_all2_same)
qed (simp_all add: assms(1))

lemma fold_map_entity_equiv:
  "list_all2 entity_equiv es es' \<Longrightarrow> scene_equiv s s' \<Longrightarrow>
     scene_equiv (fold map_entity es s) (fold map_entity es' s')"
  by (induction arbitrary: s s' rule: list_all2_induct) (simp_all add: map_entity_equiv)

lemma ensureScene_equiv:
  assumes "design_equiv d d'"
  shows "scene_equiv (ensureScene d) (ensureScene d')"
proof -
  let ?canvas = "nullish (d_canvas d) \<lparr>cs_width = Some (Fin 1280), cs_height = Some (Fin 720)\<rparr>"
  let ?W = "or_num (cs_width ?canvas) (Fin 1280)"
  let ?H = "or_num (cs_height ?canvas) (Fin 720)"
  let ?defaults = "\<lparr>gs_world = JObj [(''width'', JNum ?W), (''height'', JNum ?H),
                               (''gravity'', JNum (Fin 1400))],
             gs_background = JObj [(''imageUrl'', JStr ''''), (''fit'', JStr ''cover'')],
             gs_platforms = [],
             gs_targets = [],
             gs_characters = [],
             gs_controls = JObj [(''arrows'', JBool True), (''spaceJump'', JBool True),
                                 (''resetKey'', JStr ''R''), (''shootKey'', JStr ''X'')]\<rparr>"
  let ?s = "fold map_entity (nullish (d_entities d) []) ?defaults"
  let ?s' = "fold map_entity (nullish (d_entities d') []) ?defaults"
  have canvas: "d_canvas d' = d_canvas d"
    and ents: "list_all2 entity_equiv (nullish (d_entities d) []) (nullish (d_entities d') [])"
    using assms by (auto simp: design_equiv_def nullish_def elim: option.rel_cases)
  have "scene_equiv ?defaults ?defaults"
    unfolding scene_equiv_def by (auto intro!: js_equiv_ObjI)
  then have folded: "scene_equiv ?s ?s'"
    by (rule fold_map_entity_equiv [OF ents])
  have ground: "js_equiv (JObj [(''x'', JNum (Fin 0)), (''y'', JNum (js_sub ?H (Fin 60))),
                          (''w'', JNum ?W), (''h'', JNum (Fin 60))])
                   (JObj [(''x'', JNum (Fin 0)), (''y'', JNum (js_sub ?H (Fin 60))),
                          (''w'', JNum ?W), (''h'', JNum (Fin 60))])"
    by (rule js_equiv_ObjI) simp_all
  have hero: "js_equiv
       (JObj [(''id'', JStr ''char-1''), (''name'', JStr ''Hero''), (''imageUrl'', JStr ''''),
              (''collider'',
                 JObj [(''w'', JNum (Fin 48)), (''h'', JNum (Fin 64)),
                       (''offsetX'', JNum (Fin 0)), (''offsetY'', JNum (Fin 0))]),
              (''abilities'',
                 JObj [(''moveSpeed'', JNum (Fin 180)), (''jumpVelocity'', JNum (Fin 420))]),
              (''spawn'', JObj [(''x'', JNum (Fin 120)), (''y'', JNum (js_sub ?H (Fin 120)))])])
       (JObj [(''id'', JStr ''char-1''), (''name'', JStr ''Hero''), (''imageUrl'', JStr ''''),
              (''collider'',
                 JObj [(''w'', JNum (Fin 48)), (''h'', JNum (Fin 64)),
                       (''offsetX'', JNum (Fin 0)), (''offsetY'', JNum (Fin 0))]),
              (''abilities'',
                 JObj [(''moveSpeed'', JNum (Fin 180)), (''jumpVelocity'', JNum (Fin 420))]),
              (''spawn'', JObj [(''x'', JNum (Fin 120)), (''y'', JNum (js_sub ?H (Fin 120)))])])"
    by (rule js_equiv_Obj_refl, simp, auto intro!: js_equiv_Obj_refl)
  have lens: "length (gs_platforms ?s) = length (gs_platforms ?s')"
    "length (gs_characters ?s) = length (gs_characters ?s')"
    using folded by (auto simp: scene_equiv_def dest: list_all2_lengthD)
  show ?thesis
    using folded ground hero lens
    unfolding ensureScene_def Let_def canvas scene_equiv_def
    by (auto simp: push_equiv)
qed

lemma scene_object_equiv:
  "scene_equiv s s' \<Longrightarrow> js_equiv (JObj (scene_object s)) (JObj (scene_object s'))"
  unfolding scene_equiv_def scene_object_def
  by (intro js_equiv_ObjI) (simp_all add: equiv_Arr)

text \<open>
  C2. Two designs that differ only in the order of the properties of their entities' \<open>props\<close>
  objects give the same manifest: the same two files with the same contents. (The fields of
  an entity are read by name, so \<open>props\<close> is the only place where a key order of the input
  reaches the Scene.) \<open>generateBuildManifest\<close> reads no state, clock or random source, so it
  is a function of the design, and two calls on one design agree.
\<close>

theorem generateBuildManifest_deterministic:
  assumes "design_equiv d d'"
  shows "generateBuildManifest num html engine d = generateBuildManifest num html engine d'"
proof -
  have "stableStringify num (scene_object (ensureScene d))
          = stableStringify num (scene_object (ensureScene d'))"
    by (intro stableStringify_equiv scene_object_equiv ensureScene_equiv assms)
  then show ?thesis
    by (simp add: generateBuildManifest_def buildGameJs_def)
qed

theorem generateBuildManifest_deterministic_witness:
  "generateBuildManifest (\<lambda>q. ''0'') ''<html>'' ''run();''
       (spawn_design [(''moveSpeed'', JNum (Fin 300)), (''imageUrl'', JStr ''hero.png'')])
     = generateBuildManifest (\<lambda>q. ''0'') ''<html>'' ''run();''
         (spawn_design [(''imageUrl'', JStr ''hero.png''), (''moveSpeed'', JNum (Fin 300))])"
proof -
  have "js_equiv (JObj [(''moveSpeed'', JNum (Fin 300)), (''imageUrl'', JStr ''hero.png'')])
                 (JObj [(''imageUrl'', JStr ''hero.png''), (''moveSpeed'', JNum (Fin 300))])"
    by (rule equiv_Obj) (simp_all add: equiv_Num equiv_Str)
  then have "design_equiv
       (spawn_design [(''moveSpeed'', JNum (Fin 300)), (''imageUrl'', JStr ''hero.png'')])
       (spawn_design [(''imageUrl'', JStr ''hero.png''), (''moveSpeed'', JNum (Fin 300))])"
    by (simp add: design_equiv_def spawn_design_def entity_equiv_def)
  then show ?thesis
    by (rule generateBuildManifest_deterministic)
qed

text \<open>
  C5. Whatever the canvas and the entities of the design, the Scene \<open>ensureScene\<close> returns
  has at least one platform and at least one character.
\<close>

theorem ensureScene_has_platform_and_character:
  "gs_platforms (ensureScene design) \<noteq> [] \<and> gs_characters (ensureScene design) \<noteq> []"
  by (simp add: ensureScene_def Let_def)

text \<open>
  C6. For the design \<open>{canvas: {width: 1280, height: 720}, entities: []}\<close>, \<open>ensureScene\<close>
  returns exactly one platform, \<open>{x: 0, y: 660, w: 1280, h: 60}\<close>, and exactly one character,
  with id \<open>char-1\<close> and spawn \<open>{x: 120, y: 600}\<close>.
\<close>

theorem ensureScene_fallbacks:
  "gs_platforms (ensureScene empty_design)
     = [JObj [(''x'', JNum (Fin 0)), (''y'', JNum (Fin 660)),
              (''w'', JNum (Fin 1280)), (''h'', JNum (Fin 60))]] \<and>
   gs_characters (ensureScene empty_design)
     = [JObj [(''id'', JStr ''char-1''), (''name'', JStr ''Hero''), (''imageUrl'', JStr ''''),
              (''collider'',
                 JObj [(''w'', JNum (Fin 48)), (''h'', JNum (Fin 64)),
                       (''offsetX'', JNum (Fin 0)), (''offsetY'', JNum (Fin 0))]),
              (''abilities'',
                 JObj [(''moveSpeed'', JNum (Fin 180)), (''jumpVelocity'', JNum (Fin 420))]),
              (''spawn'', JObj [(''x'', JNum (Fin 120)), (''y'', JNum (Fin 600))])]]"
  by (simp add: ensureScene_def empty_design_def Let_def nullish_def or_num_def truthy_num_def)

lemma sorted_scene_keys:
  "sort (map fst (scene_object s))
     = [''background'', ''characters'', ''controls'', ''platforms'', ''targets'', ''world'']"
  by (simp add: scene_object_def less_eq_char_def less_char_def)

lemma Serialize_no_key:
  assumes "fst ` set kvs \<inter> set K = {}"
  shows "SerializeJSONProperty num K indent (JObj kvs) = Some ''{}''"
proof -
  have none: "map_of (map (\<lambda>(k, v). (k, SerializeJSONProperty num K (indent @ gap) v)) kvs) P = None"
    if "P \<in> set K" for P
    using assms that by (auto simp: map_of_map_value map_of_eq_None_iff)
  have "concat (map (\<lambda>P. case map_of (map (\<lambda>(k, v). (k, SerializeJSONProperty num K (indent @ gap) v)) kvs) P of
                              Some (Some strP) \<Rightarrow> [QuoteJSONString P @ '': '' @ strP]
                            | _ \<Rightarrow> []) K) = []"
    by (simp add: none)
  then show ?thesis by (simp add: Let_def)
qed

lemma Serialize_no_scene_key:
  "no_scene_key v \<Longrightarrow> SerializeJSONProperty num scene_keys indent v = Some ''{}''"
  unfolding no_scene_key_def by (elim exE conjE) (simp only: Serialize_no_key)

lemma Serialize_array_no_scene_key:
  assumes "list_all no_scene_key xs"
  shows "SerializeJSONProperty num scene_keys ''  '' (JArr xs) = Some (empty_objects (length xs))"
proof -
  have "map (\<lambda>x. case SerializeJSONProperty num scene_keys (''  '' @ gap) x of
                    None \<Rightarrow> ''null'' | Some strP \<Rightarrow> strP) xs = replicate (length xs) ''{}''"
    using assms by (induction xs) (simp_all add: Serialize_no_scene_key)
  then show ?thesis
    by (simp add: Let_def empty_objects_def gap_def newline_def)
qed

lemma no_scene_key_literal:
  "no_scene_key (JObj [(''x'', a), (''y'', b), (''w'', c), (''h'', d)])"
  "no_scene_key (JObj [(''x'', a), (''y'', b), (''w'', c), (''h'', d), (''type'', t)])"
  "no_scene_key (JObj [(''x'', a), (''y'', b), (''w'', c), (''h'', d), (''type'', t), (''props'', p)])"
  "no_scene_key (JObj [(''id'', i), (''name'', n), (''imageUrl'', u), (''collider'', k),
                       (''abilities'', ab), (''spawn'', sp)])"
  "no_scene_key (JObj [(''width'', a), (''height'', b), (''gravity'', c)])"
  "no_scene_key (JObj [(''imageUrl'', u), (''fit'', f)])"
  "no_scene_key (JObj [(''arrows'', a), (''spaceJump'', b), (''resetKey'', c), (''shootKey'', d)])"
  by (simp_all add: no_scene_key_def scene_keys_def)

lemma map_entity_inv:
  assumes "scene_inv s"
  shows "scene_inv (map_entity e s)"
proof -
  consider (rect) "e_type e = Some ''platform''" "e_shape e = Some ''rect''" "e_w e \<noteq> None" "e_h e \<noteq> None"
    | (line) "e_type e = Some ''platform''" "e_shape e = Some ''line''" "e_x2 e \<noteq> None" "e_y2 e \<noteq> None"
    | (no_platform) "e_type e = Some ''platform''"
        "\<not> (e_shape e = Some ''rect'' \<and> e_w e \<noteq> None \<and> e_h e \<noteq> None)"
        "\<not> (e_shape e = Some ''line'' \<and> e_x2 e \<noteq> None \<and> e_y2 e \<noteq> None)"
    | (target) t where "e_type e = Some t" "t = ''coin'' \<or> t = ''goal'' \<or> t = ''hazard''"
    | (spawn) "e_type e = Some ''playerSpawn''"
    | (enemy) "e_type e = Some ''enemy''"
    | (ignored) "e_type e \<notin> {Some ''platform'', Some ''coin'', Some ''goal'', Some ''hazard'',
                               Some ''playerSpawn'', Some ''enemy''}"
    by blast
  then show ?thesis
  proof cases
    case rect
    show ?thesis
      unfolding map_entity_rect [OF rect]
      using assms by (simp add: scene_inv_def no_scene_key_literal)
  next
    case line
    show ?thesis
      unfolding map_entity_line [OF line]
      using assms by (simp add: scene_inv_def no_scene_key_literal)
  next
    case no_platform
    show ?thesis
      unfolding map_entity_no_platform [OF no_platform] by (rule assms)
  next
    case target
    show ?thesis
      unfolding map_entity_target [OF target]
      using assms by (simp add: scene_inv_def no_scene_key_literal)
  next
    case spawn
    show ?thesis
      unfolding map_entity_playerSpawn [OF spawn]
      using assms by (simp add: scene_inv_def no_scene_key_literal)
  next
    case enemy
    show ?thesis
      unfolding map_entity_enemy [OF enemy]
      using assms by (simp add: scene_inv_def no_scene_key_literal)
  next
    case ignored
    show ?thesis
      unfolding map_entity_ignored [OF ignored] by (rule assms)
  qed
qed

lemma fold_map_entity_inv: "scene_inv s \<Longrightarrow> scene_inv (fold map_entity es s)"
  by (induction es arbitrary: s) (simp_all add: map_entity_inv)

lemma ensureScene_inv: "scene_inv (ensureScene d)"
proof -
  let ?canvas = "nullish (d_canvas d) \<lparr>cs_width = Some (Fin 1280), cs_height = Some (Fin 720)\<rparr>"
  let ?defaults = "\<lparr>gs_world = JObj [(''width'', JNum (or_num (cs_width ?canvas) (Fin 1280))),
                               (''height'', JNum (or_num (cs_height ?canvas) (Fin 720))),
                               (''gravity'', JNum (Fin 1400))],
             gs_background = JObj [(''imageUrl'', JStr []), (''fit'', JStr ''cover'')],
             gs_platforms = [],
             gs_targets = [],
             gs_characters = [],
             gs_controls = JObj [(''arrows'', JBool True), (''spaceJump'', JBool True),
                                 (''resetKey'', JStr ''R''), (''shootKey'', JStr ''X'')]\<rparr>"
  have "scene_inv ?defaults"
    by (simp add: scene_inv_def no_scene_key_literal)
  then have "scene_inv (fold map_entity (nullish (d_entities d) []) ?defaults)"
    by (rule fold_map_entity_inv)
  then show ?thesis
    unfolding ensureScene_def Let_def
    by (simp add: scene_inv_def no_scene_key_literal)
qed

lemma stableStringify_scene_inv:
  assumes "scene_inv s"
  shows "stableStringify num (scene_object s)
           = counts_only (length (gs_characters s)) (length (gs_platforms s)) (length (gs_targets s))"
proof -
  have keys: "sort (map fst (scene_object s)) = scene_keys"
    by (simp add: sorted_scene_keys scene_keys_def)
  have obj: "SerializeJSONProperty num scene_keys ''  '' (gs_world s) = Some ''{}''"
    "SerializeJSONProperty num scene_keys ''  '' (gs_background s) = Some ''{}''"
    "SerializeJSONProperty num scene_keys ''  '' (gs_controls s) = Some ''{}''"
    using assms by (simp_all add: scene_inv_def Serialize_no_scene_key)
  have arr: "SerializeJSONProperty num scene_keys ''  '' (JArr (gs_characters s))
               = Some (empty_objects (length (gs_characters s)))"
    "SerializeJSONProperty num scene_keys ''  '' (JArr (gs_platforms s))
               = Some (empty_objects (length (gs_platforms s)))"
    "SerializeJSONProperty num scene_keys ''  '' (JArr (gs_targets s))
               = Some (empty_objects (length (gs_targets s)))"
    using assms by (simp_all only: scene_inv_def Serialize_array_no_scene_key)
  have "SerializeJSONProperty num scene_keys [] (JObj (scene_object s))
          = Some (counts_only (length (gs_characters s)) (length (gs_platforms s))
                    (length (gs_targets s)))"
    unfolding scene_object_def SerializeJSONProperty.simps(7) Let_def append_Nil gap_def
      list.map prod.case obj arr
    by (simp add: scene_keys_def counts_only_def QuoteJSONString_def quote_unit_def newline_def)
  then show ?thesis
    by (simp only: stableStringify_def keys option.case)
qed

text \<open>
  C1 does not hold of the code. The array of top-level keys that \<open>stableStringify\<close> passes to
  \<open>JSON.stringify\<close> selects the properties of every nested object too, and no nested object of
  the Scene has a property named \<open>background\<close>, \<open>characters\<close>, \<open>controls\<close>, \<open>platforms\<close>,
  \<open>targets\<close> or \<open>world\<close>. For every design the game file embeds empty objects only, as
  many as the Scene has characters, platforms and targets; for the design of the fallback
  example it is the text below.
\<close>

theorem buildGameJs_drops_nested_fields:
  \<open>buildGameJs num engine (ensureScene design)
     = ''/* ==== GENERATED BY sketch2play static generator ==== */\<newline>const SCENE = ''
       @ counts_only (length (gs_characters (ensureScene design)))
           (length (gs_platforms (ensureScene design))) (length (gs_targets (ensureScene design)))
       @ '';\<newline>'' @ engine
   \<and> buildGameJs num engine (ensureScene empty_design)
     = ''/* ==== GENERATED BY sketch2play static generator ==== */\<newline>const SCENE = {\<newline>  "background": {},\<newline>  "characters": [\<newline>    {}\<newline>  ],\<newline>  "controls": {},\<newline>  "platforms": [\<newline>    {}\<newline>  ],\<newline>  "targets": [],\<newline>  "world": {}\<newline>};\<newline>'' @ engine\<close>
proof -
  have general: "stableStringify num (scene_object (ensureScene d))
     = counts_only (length (gs_characters (ensureScene d))) (length (gs_platforms (ensureScene d)))
         (length (gs_targets (ensureScene d)))" for d
    by (rule stableStringify_scene_inv [OF ensureScene_inv])
  have lengths: "length (gs_characters (ensureScene empty_design)) = 1"
    "length (gs_platforms (ensureScene empty_design)) = 1"
    "length (gs_targets (ensureScene empty_design)) = 0"
    by (simp_all add: ensureScene_def empty_design_def Let_def nullish_def)
  show ?thesis
    unfolding buildGameJs_def Let_def general lengths
    by (simp add: counts_only_def empty_objects_def newline_def)
qed

end
